theory Spec2Isabelle
  imports Complex_Main
begin

section \<open>Data model\<close>

text \<open>
  The geometry engine of \<^verbatim>\<open>components/ui/curved-arrow.tsx\<close>. JavaScript numbers are
  modelled as reals, \<^verbatim>\<open>Math.sin\<close>, \<^verbatim>\<open>Math.cos\<close> and \<^verbatim>\<open>Math.hypot\<close> as the
  mathematical functions; the rounding of each arithmetic operation is not part of the
  model. \<^verbatim>\<open>Math.PI\<close> is \<open>\<pi>\<close> in the arrowhead generator; in the \<^verbatim>\<open>wave\<close> loop,
  where the end of the path depends on it, it is the double that JavaScript has for it
  (\<open>Math_PI\<close> below). Dock positions, curve types, directions and head shapes stay strings,
  as in the source, so that the \<^verbatim>\<open>default\<close> branches of the switches are modelled.
\<close>

text \<open>An anchor \<^verbatim>\<open>{ x, y }\<close>.\<close>

record Point =
  pt_x :: real
  pt_y :: real

text \<open>The part of \<^verbatim>\<open>getBoundingClientRect()\<close> that the engine reads.\<close>

record DOMRect =
  dr_left :: real
  dr_top :: real
  dr_width :: real
  dr_height :: real

text \<open>\<^verbatim>\<open>type RectLite = { x; y; width; height }\<close>, relative to the container.\<close>

record RectLite =
  r_x :: real
  r_y :: real
  r_width :: real
  r_height :: real

text \<open>The \<^verbatim>\<open>coordinates\<close> state of the component.\<close>

record coordinates =
  startX :: real
  startY :: real
  endX :: real
  endY :: real
  obstacleRects :: "RectLite list"

text \<open>
  An SVG path string is kept as the list of its commands: \<^verbatim>\<open>M x y\<close>, \<^verbatim>\<open>L x y\<close>,
  \<^verbatim>\<open>C c1x c1y c2x c2y x y\<close>, \<^verbatim>\<open>S c2x c2y x y\<close>, \<^verbatim>\<open>Q cx cy x y\<close>,
  \<^verbatim>\<open>A rx ry rotation large sweep x y\<close> and \<^verbatim>\<open>Z\<close>. Appending to the string is
  appending to the list.
\<close>

datatype segment =
    MoveTo real real
  | LineTo real real
  | CubicTo real real real real real real
  | SmoothTo real real real real
  | QuadTo real real real real
  | ArcTo real real real bool bool real real
  | ClosePath

type_synonym path = "segment list"

text \<open>The point a command ends at; \<^verbatim>\<open>Z\<close> names none.\<close>

fun segment_end :: "segment \<Rightarrow> Point option" where
  "segment_end (MoveTo x y) = Some \<lparr>pt_x = x, pt_y = y\<rparr>"
| "segment_end (LineTo x y) = Some \<lparr>pt_x = x, pt_y = y\<rparr>"
| "segment_end (CubicTo c1x c1y c2x c2y x y) = Some \<lparr>pt_x = x, pt_y = y\<rparr>"
| "segment_end (SmoothTo c2x c2y x y) = Some \<lparr>pt_x = x, pt_y = y\<rparr>"
| "segment_end (QuadTo cx cy x y) = Some \<lparr>pt_x = x, pt_y = y\<rparr>"
| "segment_end (ArcTo rx ry rot large sweep x y) = Some \<lparr>pt_x = x, pt_y = y\<rparr>"
| "segment_end ClosePath = None"

text \<open>The first point of a path is the target of its leading \<^verbatim>\<open>M\<close>.\<close>

fun firstPoint :: "path \<Rightarrow> Point option" where
  "firstPoint (MoveTo x y # rest) = Some \<lparr>pt_x = x, pt_y = y\<rparr>"
| "firstPoint p = None"

text \<open>The last point of a path is where its last command ends.\<close>

fun lastPoint :: "path \<Rightarrow> Point option" where
  "lastPoint [] = None"
| "lastPoint [s] = segment_end s"
| "lastPoint (s # rest) = lastPoint rest"

section \<open>Anchor resolver\<close>

text \<open>
  \<^verbatim>\<open>calculatePosition(element, position)\<close>: \<open>rect\<close> is the element's bounding rect,
  \<open>containerRect\<close> that of \<^verbatim>\<open>containerRef.current\<close>, absent when the container is not
  mounted. The cases are tried in the order of the source's \<^verbatim>\<open>switch\<close>.
\<close>

definition calculatePosition :: "DOMRect \<Rightarrow> DOMRect option \<Rightarrow> string \<Rightarrow> Point" where
  "calculatePosition rect containerRect position =
     (case containerRect of
        None \<Rightarrow> \<lparr>pt_x = 0, pt_y = 0\<rparr>
      | Some c \<Rightarrow>
          (let relativeX = dr_left rect - dr_left c;
               relativeY = dr_top rect - dr_top c;
               padding = (5 :: real)
           in if position = ''top'' \<or> position = ''top-center'' then
                \<lparr>pt_x = relativeX + dr_width rect / 2, pt_y = relativeY - padding\<rparr>
              else if position = ''bottom'' \<or> position = ''bottom-center'' then
                \<lparr>pt_x = relativeX + dr_width rect / 2, pt_y = relativeY + dr_height rect + padding\<rparr>
              else if position = ''left'' \<or> position = ''left-center'' then
                \<lparr>pt_x = relativeX - padding, pt_y = relativeY + dr_height rect / 2\<rparr>
              else if position = ''right'' \<or> position = ''right-center'' then
                \<lparr>pt_x = relativeX + dr_width rect + padding, pt_y = relativeY + dr_height rect / 2\<rparr>
              else if position = ''center'' then
                \<lparr>pt_x = relativeX + dr_width rect / 2, pt_y = relativeY + dr_height rect / 2\<rparr>
              else if position = ''top-left'' then
                \<lparr>pt_x = relativeX, pt_y = relativeY\<rparr>
              else if position = ''top-right'' then
                \<lparr>pt_x = relativeX + dr_width rect, pt_y = relativeY\<rparr>
              else if position = ''bottom-left'' then
                \<lparr>pt_x = relativeX, pt_y = relativeY + dr_height rect\<rparr>
              else if position = ''bottom-right'' then
                \<lparr>pt_x = relativeX + dr_width rect, pt_y = relativeY + dr_height rect\<rparr>
              else if position = ''middle-left'' \<or> position = ''center-left'' then
                \<lparr>pt_x = relativeX, pt_y = relativeY + dr_height rect / 2\<rparr>
              else if position = ''middle-right'' \<or> position = ''center-right'' then
                \<lparr>pt_x = relativeX + dr_width rect, pt_y = relativeY + dr_height rect / 2\<rparr>
              else if position = ''middle-top'' \<or> position = ''center-top'' then
                \<lparr>pt_x = relativeX + dr_width rect / 2, pt_y = relativeY\<rparr>
              else if position = ''middle-bottom'' \<or> position = ''center-bottom'' then
                \<lparr>pt_x = relativeX + dr_width rect / 2, pt_y = relativeY + dr_height rect\<rparr>
              else
                \<lparr>pt_x = relativeX + dr_width rect / 2, pt_y = relativeY + dr_height rect / 2\<rparr>))"

text \<open>
  The \<^verbatim>\<open>RectLite\<close> the component derives from an element: its bounding rect relative
  to the container's (the obstacle loop of \<^verbatim>\<open>updateCoordinates\<close>).
\<close>

definition relativeRect :: "DOMRect \<Rightarrow> DOMRect \<Rightarrow> RectLite" where
  "relativeRect o_rect c =
     \<lparr>r_x = dr_left o_rect - dr_left c, r_y = dr_top o_rect - dr_top c,
      r_width = dr_width o_rect, r_height = dr_height o_rect\<rparr>"

section \<open>Geometry update: tolerance suppression\<close>

text \<open>
  The two updater functions that \<^verbatim>\<open>updateCoordinates\<close> hands to
  \<^verbatim>\<open>setCoordinates\<close>. The first is used when the start, end and container elements
  are present (\<open>sp\<close>, \<open>ep\<close> are the resolved anchors, \<open>newRects\<close> the obstacle rects
  just measured), the second when the component falls back to its coordinate props.
\<close>

definition commitFromRefs :: "Point \<Rightarrow> Point \<Rightarrow> RectLite list \<Rightarrow> coordinates \<Rightarrow> coordinates" where
  "commitFromRefs sp ep newRects prev =
     (let same =
            (\<bar>startX prev - pt_x sp\<bar> < 0.5 \<and>
             \<bar>startY prev - pt_y sp\<bar> < 0.5 \<and>
             \<bar>endX prev - pt_x ep\<bar> < 0.5 \<and>
             \<bar>endY prev - pt_y ep\<bar> < 0.5 \<and>
             length (obstacleRects prev) = length newRects)
      in if same then prev
         else \<lparr>startX = pt_x sp, startY = pt_y sp, endX = pt_x ep, endY = pt_y ep,
               obstacleRects = newRects\<rparr>)"

definition commitDirect :: "real \<Rightarrow> real \<Rightarrow> real \<Rightarrow> real \<Rightarrow> coordinates \<Rightarrow> coordinates" where
  "commitDirect propStartX propStartY propEndX propEndY prev =
     (let same =
            (\<bar>startX prev - propStartX\<bar> < 0.5 \<and>
             \<bar>startY prev - propStartY\<bar> < 0.5 \<and>
             \<bar>endX prev - propEndX\<bar> < 0.5 \<and>
             \<bar>endY prev - propEndY\<bar> < 0.5 \<and>
             length (obstacleRects prev) = 0)
      in if same then prev
         else \<lparr>startX = propStartX, startY = propStartY, endX = propEndX, endY = propEndY,
               obstacleRects = []\<rparr>)"

text \<open>
  The obstacle loop: one rect for every obstacle ref whose element is present, in the
  order of \<^verbatim>\<open>obstacleElements\<close>.
\<close>

fun collectObstacleRects :: "DOMRect option list \<Rightarrow> DOMRect \<Rightarrow> RectLite list" where
  "collectObstacleRects [] c = []"
| "collectObstacleRects (None # refs) c = collectObstacleRects refs c"
| "collectObstacleRects (Some o_rect # refs) c = relativeRect o_rect c # collectObstacleRects refs c"

text \<open>
  What \<^verbatim>\<open>updateCoordinates\<close> reads: the bounding rects of the referenced elements
  (absent when a ref is empty) and the props.
\<close>

record environment =
  startElement :: "DOMRect option"
  endElement :: "DOMRect option"
  containerRef :: "DOMRect option"
  obstacleElements :: "DOMRect option list"
  startPosition :: string
  endPosition :: string
  propStartX :: real
  propStartY :: real
  propEndX :: real
  propEndY :: real

text \<open>What it writes: the re-entrancy flag and the committed coordinates.\<close>

record component =
  isUpdatingRef :: bool
  committed :: coordinates

definition updateCoordinates :: "environment \<Rightarrow> component \<Rightarrow> component" where
  "updateCoordinates env st =
     (if isUpdatingRef st then st
      else
        (case (startElement env, endElement env, containerRef env) of
           (Some s, Some e, Some c) \<Rightarrow>
             (let sp = calculatePosition s (Some c) (startPosition env);
                  ep = calculatePosition e (Some c) (endPosition env);
                  newRects = collectObstacleRects (obstacleElements env) c
              in \<lparr>isUpdatingRef = False,
                  committed = commitFromRefs sp ep newRects (committed st)\<rparr>)
         | _ \<Rightarrow>
             \<lparr>isUpdatingRef = False,
              committed = commitDirect (propStartX env) (propStartY env) (propEndX env)
                            (propEndY env) (committed st)\<rparr>))"

section \<open>Curve path generator\<close>

text \<open>\<^verbatim>\<open>Math.hypot(dx, dy)\<close>.\<close>

definition hypot :: "real \<Rightarrow> real \<Rightarrow> real" where
  "hypot a b = sqrt (a\<^sup>2 + b\<^sup>2)"

text \<open>The directional bias: \<^verbatim>\<open>auto\<close> picks an axis from the deltas.\<close>

definition effectiveDirection :: "string \<Rightarrow> real \<Rightarrow> real \<Rightarrow> string" where
  "effectiveDirection curveDirection dx dy =
     (if curveDirection = ''auto'' then
        (if \<bar>dx\<bar> > \<bar>dy\<bar> then (if dy > 0 then ''up'' else ''down'')
         else (if dx > 0 then ''left'' else ''right''))
      else curveDirection)"

definition baseOffset :: "real \<Rightarrow> real \<Rightarrow> real" where
  "baseOffset distance curveIntensity = min (distance * curveIntensity) 150"

text \<open>The \<^verbatim>\<open>switch (effectiveDirection)\<close>; both offsets start at 0.\<close>

definition offsetX :: "string \<Rightarrow> real \<Rightarrow> real" where
  "offsetX direction b =
     (if direction = ''up'' then 0 else if direction = ''down'' then 0
      else if direction = ''left'' then - b else if direction = ''right'' then b else 0)"

definition offsetY :: "string \<Rightarrow> real \<Rightarrow> real" where
  "offsetY direction b =
     (if direction = ''up'' then - b else if direction = ''down'' then b else 0)"

text \<open>
  \<^verbatim>\<open>Math.PI\<close>: the double nearest to \<open>\<pi>\<close>, \<open>884279719003555 / 2\<^sup>4\<^sup>8\<close>
  (\<^verbatim>\<open>3.141592653589793\<close>), a little below \<open>\<pi>\<close>.
\<close>

definition Math_PI :: real where
  "Math_PI = 884279719003555 / 281474976710656"

text \<open>
  The body of the \<^verbatim>\<open>wave\<close> loop at counter \<open>i\<close> (8 segments). The loop ends on its
  computed eighth sample: unlike the \<^verbatim>\<open>zigzag\<close> branch, the source appends no
  \<^verbatim>\<open>L ex ey\<close> after it.
\<close>

definition waveSegment :: "real \<Rightarrow> real \<Rightarrow> real \<Rightarrow> real \<Rightarrow> real \<Rightarrow> nat \<Rightarrow> segment" where
  "waveSegment sx sy dx dy b i =
     (let segments = (8 :: real);
          t = real i / segments;
          x = sx + dx * t;
          y = sy + dy * t + sin (t * Math_PI * 4) * b * 0.3;
          pt = (real i - 1) / segments;
          px = sx + dx * pt;
          py = sy + dy * pt + sin (pt * Math_PI * 4) * b * 0.3;
          cpx = (px + x) / 2;
          cpy = (py + y) / 2
      in QuadTo cpx cpy x y)"

text \<open>The body of the \<^verbatim>\<open>zigzag\<close> loop at counter \<open>i\<close> (6 segments).\<close>

definition zigzagSegment :: "real \<Rightarrow> real \<Rightarrow> real \<Rightarrow> real \<Rightarrow> real \<Rightarrow> nat \<Rightarrow> segment" where
  "zigzagSegment sx sy dx dy b i =
     (let segments = (6 :: real);
          t = real i / segments;
          x = sx + dx * t;
          zz = (if i mod 2 = 0 then b * 0.4 else - b * 0.4);
          y = sy + dy * t + zz
      in LineTo x y)"

subsection \<open>Obstacle router\<close>

text \<open>The obstacle box grown by the margin, as the \<^verbatim>\<open>forEach\<close> body computes it.\<close>

definition margin :: real where
  "margin = 25"

definition boxLeft :: "RectLite \<Rightarrow> real" where
  "boxLeft ob = r_x ob - margin"

definition boxRight :: "RectLite \<Rightarrow> real" where
  "boxRight ob = r_x ob + r_width ob + margin"

definition boxTop :: "RectLite \<Rightarrow> real" where
  "boxTop ob = r_y ob - margin"

definition boxBottom :: "RectLite \<Rightarrow> real" where
  "boxBottom ob = r_y ob + r_height ob + margin"

definition intersects :: "real \<Rightarrow> real \<Rightarrow> real \<Rightarrow> real \<Rightarrow> RectLite \<Rightarrow> bool" where
  "intersects cx cy ex ey ob =
     (cx < boxRight ob \<and> ex > boxLeft ob \<and> min cy ey < boxBottom ob \<and> max cy ey > boxTop ob)"

definition wayX :: "real \<Rightarrow> RectLite \<Rightarrow> real" where
  "wayX ex ob =
     (let goRight = (ex > r_x ob + r_width ob / 2)
      in if goRight then boxRight ob + 20 else boxLeft ob - 20)"

definition wayY :: "real \<Rightarrow> RectLite \<Rightarrow> real" where
  "wayY ey ob =
     (let goUp = (ey < r_y ob + r_height ob / 2)
      in if goUp then boxTop ob - 10 else boxBottom ob + 10)"

text \<open>
  One round of the \<^verbatim>\<open>forEach\<close>: the state is the path so far and the running point
  \<open>(cx, cy)\<close>.
\<close>

definition detour :: "real \<Rightarrow> real \<Rightarrow> path \<times> real \<times> real \<Rightarrow> RectLite \<Rightarrow> path \<times> real \<times> real" where
  "detour ex ey st ob =
     (case st of (p, cx, cy) \<Rightarrow>
        if intersects cx cy ex ey ob then
          (p @ [LineTo (wayX ex ob) (wayY ey ob)], wayX ex ob, wayY ey ob)
        else (p, cx, cy))"

text \<open>The whole pass, obstacles in list order.\<close>

fun route :: "real \<Rightarrow> real \<Rightarrow> path \<times> real \<times> real \<Rightarrow> RectLite list \<Rightarrow> path \<times> real \<times> real" where
  "route ex ey st [] = st"
| "route ex ey st (ob # obs) = route ex ey (detour ex ey st ob) obs"

subsection \<open>The generator\<close>

record curve =
  pathString :: path
  control2X :: real
  control2Y :: real

definition createCurvePath :: "coordinates \<Rightarrow> string \<Rightarrow> string \<Rightarrow> real \<Rightarrow> curve" where
  "createCurvePath coords curveType curveDirection curveIntensity =
     (let sx = startX coords; sy = startY coords; ex = endX coords; ey = endY coords;
          dx = ex - sx;
          dy = ey - sy;
          distance = hypot dx dy;
          direction = effectiveDirection curveDirection dx dy;
          b = baseOffset distance curveIntensity;
          ox = offsetX direction b;
          oy = offsetY direction b
      in if curveType = ''smooth'' then
           (let c1x = sx + dx * 0.3 + ox * 0.5;
                c1y = sy + dy * 0.3 + oy * 0.5;
                c2x = ex - dx * 0.3 + ox * 0.5;
                c2y = ey - dy * 0.3 + oy * 0.5
            in \<lparr>pathString = [MoveTo sx sy, CubicTo c1x c1y c2x c2y ex ey],
                control2X = c2x, control2Y = c2y\<rparr>)
         else if curveType = ''dramatic'' then
           (let c1x = sx + dx * 0.1 + ox * 1.5;
                c1y = sy + dy * 0.1 + oy * 1.5;
                c2x = ex - dx * 0.1 + ox * 1.5;
                c2y = ey - dy * 0.1 + oy * 1.5
            in \<lparr>pathString = [MoveTo sx sy, CubicTo c1x c1y c2x c2y ex ey],
                control2X = c2x, control2Y = c2y\<rparr>)
         else if curveType = ''s-curve'' then
           (let c1x = sx + dx * 0.25 + ox * 0.8;
                c1y = sy + dy * 0.25 + oy * 0.8;
                c2x = ex - dx * 0.25 - ox * 0.8;
                c2y = ey - dy * 0.25 - oy * 0.8
            in \<lparr>pathString = [MoveTo sx sy, CubicTo c1x c1y c2x c2y ex ey],
                control2X = c2x, control2Y = c2y\<rparr>)
         else if curveType = ''wave'' then
           \<lparr>pathString = MoveTo sx sy # map (waveSegment sx sy dx dy b) [1..<9],
            control2X = sx + dx * 0.875, control2Y = sy + dy * 0.875\<rparr>
         else if curveType = ''elegant'' then
           (let midX = (sx + ex) / 2 + ox * 0.8;
                midY = (sy + ey) / 2 + oy * 0.8;
                c1x = sx + dx * 0.2 + ox * 0.4;
                c1y = sy + dy * 0.2 + oy * 0.4;
                c2x = ex - dx * 0.2 + ox * 0.4;
                c2y = ey - dy * 0.2 + oy * 0.4
            in \<lparr>pathString = [MoveTo sx sy, CubicTo c1x c1y midX midY midX midY,
                              SmoothTo c2x c2y ex ey],
                control2X = c2x, control2Y = c2y\<rparr>)
         else if curveType = ''zigzag'' then
           \<lparr>pathString = (MoveTo sx sy # map (zigzagSegment sx sy dx dy b) [1..<7]) @ [LineTo ex ey],
            control2X = sx + dx * 0.833, control2Y = sy + dy * 0.833\<rparr>
         else if curveType = ''around-obstacle'' \<or> curveType = ''shortest-path'' then
           (let obs = obstacleRects coords
            in if length obs \<noteq> 0 then
                 (case route ex ey ([MoveTo sx sy], sx, sy) obs of (p, cx, cy) \<Rightarrow>
                    \<lparr>pathString = p @ [LineTo ex ey], control2X = cx, control2Y = cy\<rparr>)
               else
                 (let c1x = sx + dx * 0.3;
                      c1y = sy + dy * 0.3;
                      c2x = ex - dx * 0.3;
                      c2y = ey - dy * 0.3
                  in \<lparr>pathString = [MoveTo sx sy, CubicTo c1x c1y c2x c2y ex ey],
                      control2X = c2x, control2Y = c2y\<rparr>))
         else
           (let c1x = sx + dx * 0.3 + ox * 0.5;
                c1y = sy + dy * 0.3 + oy * 0.5;
                c2x = ex - dx * 0.3 + ox * 0.5;
                c2y = ey - dy * 0.3 + oy * 0.5
            in \<lparr>pathString = [MoveTo sx sy, CubicTo c1x c1y c2x c2y ex ey],
                control2X = c2x, control2Y = c2y\<rparr>))"

section \<open>Arrowhead generator\<close>

text \<open>
  The two wing points at \<open>\<plusminus>\<pi>/6\<close> behind the tip, which the source computes four
  times over (the force-filled shell, \<^verbatim>\<open>triangle\<close>/\<^verbatim>\<open>arrow\<close>,
  \<^verbatim>\<open>filled-triangle\<close> and the fallback).
\<close>

definition closedTriangle :: "real \<Rightarrow> real \<Rightarrow> real \<Rightarrow> real \<Rightarrow> path" where
  "closedTriangle x y hsize totalAngle =
     (let a = pi / 6;
          fx1 = x - hsize * cos (totalAngle - a);
          fy1 = y - hsize * sin (totalAngle - a);
          fx2 = x - hsize * cos (totalAngle + a);
          fy2 = y - hsize * sin (totalAngle + a)
      in [MoveTo x y, LineTo fx1 fy1, LineTo fx2 fy2, ClosePath])"

definition openTriangle :: "real \<Rightarrow> real \<Rightarrow> real \<Rightarrow> real \<Rightarrow> path" where
  "openTriangle x y hsize totalAngle =
     (let a = pi / 6;
          x1 = x - hsize * cos (totalAngle - a);
          y1 = y - hsize * sin (totalAngle - a);
          x2 = x - hsize * cos (totalAngle + a);
          y2 = y - hsize * sin (totalAngle + a)
      in [MoveTo x y, LineTo x1 y1, MoveTo x y, LineTo x2 y2])"

text \<open>The body of the \<^verbatim>\<open>star\<close> loop at counter \<open>i\<close>.\<close>

definition starPoint :: "real \<Rightarrow> real \<Rightarrow> real \<Rightarrow> real \<Rightarrow> nat \<Rightarrow> segment" where
  "starPoint x y hsize totalAngle i =
     (let outer = hsize;
          inner = hsize * 0.4;
          ang = totalAngle + (real i * pi) / 5;
          r = (if i mod 2 = 0 then outer else inner);
          px = x + r * cos ang;
          py = y + r * sin ang
      in if i = 0 then MoveTo px py else LineTo px py)"

text \<open>
  \<^verbatim>\<open>createArrowHead(x, y, angle, size, shape, rotation, forceFilled)\<close>; \<open>hsize\<close> is the
  source's \<^verbatim>\<open>size\<close>, \<open>cosA\<close> and \<open>sinA\<close> its locals \<^verbatim>\<open>cos\<close> and \<^verbatim>\<open>sin\<close>.
\<close>

definition createArrowHead :: "real \<Rightarrow> real \<Rightarrow> real \<Rightarrow> real \<Rightarrow> string \<Rightarrow> real \<Rightarrow> bool \<Rightarrow> path" where
  "createArrowHead x y angle hsize shape rotation forceFilled =
     (let totalAngle = angle + (rotation * pi) / 180;
          cosA = cos totalAngle;
          sinA = sin totalAngle
      in if forceFilled \<and> (shape = ''triangle'' \<or> shape = ''arrow'' \<or> shape = ''hollow-triangle'') then
           closedTriangle x y hsize totalAngle
         else if shape = ''triangle'' \<or> shape = ''arrow'' then
           openTriangle x y hsize totalAngle
         else if shape = ''filled-triangle'' then
           closedTriangle x y hsize totalAngle
         else if shape = ''circle'' \<or> shape = ''filled-circle'' then
           [MoveTo (x + hsize * cosA) (y + hsize * sinA),
            ArcTo hsize hsize 0 True True (x - hsize * cosA) (y - hsize * sinA),
            ArcTo hsize hsize 0 True True (x + hsize * cosA) (y + hsize * sinA)]
         else if shape = ''hollow-circle'' then
           (let r = hsize * 0.6
            in [MoveTo (x + hsize * cosA) (y + hsize * sinA),
                ArcTo hsize hsize 0 True True (x - hsize * cosA) (y - hsize * sinA),
                ArcTo hsize hsize 0 True True (x + hsize * cosA) (y + hsize * sinA),
                MoveTo (x + r * cosA) (y + r * sinA),
                ArcTo r r 0 True False (x - r * cosA) (y - r * sinA),
                ArcTo r r 0 True False (x + r * cosA) (y + r * sinA)])
         else if shape = ''square'' \<or> shape = ''filled-square'' then
           (let h = hsize * 0.7
            in [MoveTo (x + h * cosA - h * sinA) (y + h * sinA + h * cosA),
                LineTo (x + h * cosA + h * sinA) (y + h * sinA - h * cosA),
                LineTo (x - h * cosA + h * sinA) (y - h * sinA - h * cosA),
                LineTo (x - h * cosA - h * sinA) (y - h * sinA + h * cosA),
                ClosePath])
         else if shape = ''diamond'' \<or> shape = ''filled-diamond'' then
           (let d = hsize * 0.8
            in [MoveTo (x + d * cosA) (y + d * sinA),
                LineTo (x + d * sinA) (y - d * cosA),
                LineTo (x - d * cosA) (y - d * sinA),
                LineTo (x - d * sinA) (y + d * cosA),
                ClosePath])
         else if shape = ''star'' then
           map (starPoint x y hsize totalAngle) [0..<10] @ [ClosePath]
         else if shape = ''heart'' then
           (let s = hsize * 0.6;
                hx1 = x - s * 0.5 * cosA + s * 0.8 * sinA;
                hy1 = y - s * 0.5 * sinA - s * 0.8 * cosA;
                hx2 = x + s * 0.5 * cosA + s * 0.8 * sinA;
                hy2 = y + s * 0.5 * sinA - s * 0.8 * cosA
            in [MoveTo x y,
                CubicTo hx1 hy1 (x - s * cosA) (y - s * sinA) (x - s * 0.5 * cosA) (y - s * 0.5 * sinA),
                CubicTo x (y - s * sinA) (x + s * 0.5 * cosA) (y + s * 0.5 * sinA) (x + s * cosA) (y + s * sinA),
                CubicTo hx2 hy2 x y x y])
         else if shape = ''cross'' then
           (let s = hsize * 0.8
            in [MoveTo (x - s * cosA) (y - s * sinA), LineTo (x + s * cosA) (y + s * sinA),
                MoveTo (x - s * sinA) (y + s * cosA), LineTo (x + s * sinA) (y - s * cosA)])
         else if shape = ''plus'' then
           (let s = hsize * 0.8
            in [MoveTo (x - s * cosA) (y - s * sinA), LineTo (x + s * cosA) (y + s * sinA),
                MoveTo x (y - s), LineTo x (y + s)])
         else if shape = ''chevron'' then
           (let c = hsize * 0.8;
                x1 = x - c * cos (totalAngle - pi / 4);
                y1 = y - c * sin (totalAngle - pi / 4);
                x2 = x - c * cos (totalAngle + pi / 4);
                y2 = y - c * sin (totalAngle + pi / 4)
            in [MoveTo x1 y1, LineTo x y, LineTo x2 y2])
         else if shape = ''double-chevron'' then
           (let c = hsize * 0.6;
                x1 = x - c * cos (totalAngle - pi / 4);
                y1 = y - c * sin (totalAngle - pi / 4);
                x2 = x - c * cos (totalAngle + pi / 4);
                y2 = y - c * sin (totalAngle + pi / 4);
                x3 = x - c * 1.6 * cos (totalAngle - pi / 4);
                y3 = y - c * 1.6 * sin (totalAngle - pi / 4);
                x4 = x - c * 1.6 * cos (totalAngle + pi / 4);
                y4 = y - c * 1.6 * sin (totalAngle + pi / 4);
                cx = x - c * 0.8 * cos totalAngle;
                cy = y - c * 0.8 * sin totalAngle
            in [MoveTo x1 y1, LineTo x y, LineTo x2 y2, MoveTo x3 y3, LineTo cx cy, LineTo x4 y4])
         else if shape = ''line'' then
           (let s = hsize * 0.8;
                lx1 = x - s * sinA;
                ly1 = y + s * cosA;
                lx2 = x + s * sinA;
                ly2 = y - s * cosA
            in [MoveTo lx1 ly1, LineTo lx2 ly2])
         else if shape = ''dot'' then
           (let r = hsize * 0.3
            in [MoveTo (x + r) y, ArcTo r r 0 True True (x - r) y, ArcTo r r 0 True True (x + r) y])
         else if shape = ''dash'' then
           (let s = hsize * 0.6;
                dx1 = x - s * cos totalAngle;
                dy1 = y - s * sin totalAngle;
                dx2 = x + s * cos totalAngle;
                dy2 = y + s * sin totalAngle
            in [MoveTo dx1 dy1, LineTo dx2 dy2])
         else
           openTriangle x y hsize totalAngle)"

section \<open>Notions of the specification\<close>

text \<open>The eight curve styles that \<^verbatim>\<open>createCurvePath\<close> implements.\<close>

definition implementedStyles :: "string list" where
  "implementedStyles =
     [''smooth'', ''dramatic'', ''s-curve'', ''wave'', ''elegant'', ''zigzag'',
      ''around-obstacle'', ''shortest-path'']"

text \<open>
  The specification's test of the router: the range spanned by \<open>a1\<close> and \<open>a2\<close> (in
  either order) and the range from \<open>lo\<close> to \<open>hi\<close> overlap in more than a boundary point.
\<close>

definition spec_rangesOverlap :: "real \<Rightarrow> real \<Rightarrow> real \<Rightarrow> real \<Rightarrow> bool" where
  "spec_rangesOverlap a1 a2 lo hi = (min a1 a2 < hi \<and> lo < max a1 a2)"

text \<open>The specification's clamp of a value into \<open>[lo, hi]\<close>.\<close>

definition spec_clamp :: "real \<Rightarrow> real \<Rightarrow> real \<Rightarrow> real" where
  "spec_clamp v lo hi = max lo (min hi v)"

section \<open>Auxiliary facts\<close>

lemma lastPoint_snoc: "lastPoint (p @ [s]) = segment_end s"
  by (induction p rule: lastPoint.induct) auto

lemma lastPoint_loop:
  assumes "1 \<le> n"
  shows "lastPoint (s # map f [1..<Suc n]) = segment_end (f n)"
proof -
  from assms have "s # map f [1..<Suc n] = (s # map f [1..<n]) @ [f n]"
    by simp
  then show ?thesis
    by (simp only: lastPoint_snoc)
qed

lemma lastPoint_wave: "lastPoint (s # map f [1..<9]) = segment_end (f 8)"
  using lastPoint_loop [of 8 s f] by simp

text \<open>The router only ever appends to the path it was given.\<close>

lemma route_path: "\<exists>ws. fst (route ex ey (p, cx, cy) obs) = p @ ws"
proof (induction obs arbitrary: p cx cy)
  case Nil
  then show ?case by simp
next
  case (Cons ob obs)
  show ?case
  proof (cases "intersects cx cy ex ey ob")
    case True
    from Cons [of "p @ [LineTo (wayX ex ob) (wayY ey ob)]" "wayX ex ob" "wayY ey ob"]
    obtain ws where
      "fst (route ex ey (p @ [LineTo (wayX ex ob) (wayY ey ob)], wayX ex ob, wayY ey ob) obs)
         = (p @ [LineTo (wayX ex ob) (wayY ey ob)]) @ ws"
      by blast
    with True show ?thesis by (simp add: detour_def)
  next
    case False
    with Cons [of p cx cy] show ?thesis by (simp add: detour_def)
  qed
qed

section \<open>Bounds for \<open>\<pi>\<close> and for the sine at \<open>4 * Math_PI\<close>\<close>

text \<open>Partial sums of the alternating arctangent series enclose the arctangent.\<close>

lemma arctan_bounds:
  fixes x :: real
  assumes "0 \<le> x" and "x \<le> 1"
  shows "(\<Sum>k<2 * n. (- 1) ^ k * (1 / real (k * 2 + 1) * x ^ (k * 2 + 1))) \<le> arctan x"
    and "arctan x \<le> (\<Sum>k<2 * n + 1. (- 1) ^ k * (1 / real (k * 2 + 1) * x ^ (k * 2 + 1)))"
proof -
  let ?a = "\<lambda>k. 1 / real (k * 2 + 1) * x ^ (k * 2 + 1)"
  have zero: "?a \<longlonglongrightarrow> 0"
    using assms by (intro zeroseq_arctan_series) simp
  have pos: "0 \<le> ?a k" for k
    using assms by simp
  have mono: "?a (Suc k) \<le> ?a k" for k
  proof -
    have "x ^ (Suc k * 2 + 1) \<le> x ^ (k * 2 + 1)"
      using assms by (intro power_decreasing) simp_all
    moreover have "1 / real (Suc k * 2 + 1) \<le> 1 / real (k * 2 + 1)"
      by (intro divide_left_mono) simp_all
    ultimately show ?thesis
      using assms by (intro mult_mono) simp_all
  qed
  have series: "arctan x = (\<Sum>k. (- 1) ^ k * ?a k)"
    using assms by (intro arctan_series) simp
  show "(\<Sum>k<2 * n. (- 1) ^ k * ?a k) \<le> arctan x"
    unfolding series by (rule summable_Leibniz'(2) [OF zero pos mono])
  show "arctan x \<le> (\<Sum>k<2 * n + 1. (- 1) ^ k * ?a k)"
    unfolding series by (rule summable_Leibniz'(4) [OF zero pos mono])
qed

lemma sum_lessThan_list: "(\<Sum>k<n. f k) = sum_list (map f [0..<n])" for f :: "nat \<Rightarrow> real"
  by (simp add: interv_sum_list_conv_sum_set_nat lessThan_atLeast0)

lemma arctan_5_lower:
  "0.1973955598498807583700495
     \<le> (\<Sum>k<16. (- 1) ^ k * (1 / real (k * 2 + 1) * (1 / 5 :: real) ^ (k * 2 + 1)))"
  by (simp add: sum_lessThan_list upt_rec power_divide)

lemma arctan_5_upper:
  "(\<Sum>k<15. (- 1) ^ k * (1 / real (k * 2 + 1) * (1 / 5 :: real) ^ (k * 2 + 1)))
     \<le> 0.1973955598498807583700565"
  by (simp add: sum_lessThan_list upt_rec power_divide)

lemma arctan_239_lower:
  "0.0041840760020747238644945
     \<le> (\<Sum>k<4. (- 1) ^ k * (1 / real (k * 2 + 1) * (1 / 239 :: real) ^ (k * 2 + 1)))"
  by (simp add: sum_lessThan_list upt_rec power_divide)

lemma arctan_239_upper:
  "(\<Sum>k<5. (- 1) ^ k * (1 / real (k * 2 + 1) * (1 / 239 :: real) ^ (k * 2 + 1)))
     \<le> 0.0041840760020747238645383"
  by (simp add: sum_lessThan_list upt_rec power_divide)

text \<open>Machin's formula with these partial sums gives \<open>\<pi>\<close> to 21 decimals.\<close>

lemma pi_bounds: "3.141592653589793238462 < pi" "pi < 3.141592653589793238463"
proof -
  have u: "(0 :: real) \<le> 1 / 5" "(1 / 5 :: real) \<le> 1"
    "(0 :: real) \<le> 1 / 239" "(1 / 239 :: real) \<le> 1"
    by simp_all
  have a: "0.1973955598498807583700495 \<le> arctan (1 / 5)"
    using arctan_bounds(1) [OF u(1,2), of 8] arctan_5_lower by simp
  have b: "arctan (1 / 5) \<le> 0.1973955598498807583700565"
    using arctan_bounds(2) [OF u(1,2), of 7] arctan_5_upper by simp
  have c: "0.0041840760020747238644945 \<le> arctan (1 / 239)"
    using arctan_bounds(1) [OF u(3,4), of 2] arctan_239_lower by simp
  have d: "arctan (1 / 239) \<le> 0.0041840760020747238645383"
    using arctan_bounds(2) [OF u(3,4), of 2] arctan_239_upper by simp
  have m: "pi = 16 * arctan (1 / 5) - 4 * arctan (1 / 239)"
    using machin by simp
  show "3.141592653589793238462 < pi"
    using a d unfolding m by simp
  show "pi < 3.141592653589793238463"
    using b c unfolding m by simp
qed

text \<open>
  \<open>4 * Math_PI\<close> falls short of \<open>4\<pi>\<close> by about \<open>4.9 / 10\<^sup>1\<^sup>6\<close>, and the sine there
  is minus the sine of that gap.
\<close>

lemma sin_4_Math_PI:
  "- (4.899 / 10 ^ 16) < sin (Math_PI * 4)" "sin (Math_PI * 4) < - (4.898 / 10 ^ 16)"
proof -
  define d where "d = 4 * pi - Math_PI * 4"
  have d_lo: "4.8985 / 10 ^ 16 < d"
    using pi_bounds(1) by (simp add: d_def Math_PI_def)
  have d_hi: "d < 4.8987 / 10 ^ 16"
    using pi_bounds(2) by (simp add: d_def Math_PI_def)
  have d_pos: "0 \<le> d"
    using d_lo by simp
  have e: "Math_PI * 4 = (- d + 2 * pi) + 2 * pi"
    by (simp add: d_def)
  have "sin (Math_PI * 4) = sin (- d)"
    unfolding e by (simp only: sin_periodic)
  then have s: "sin (Math_PI * 4) = - sin d"
    by simp
  have upper: "sin d \<le> d"
    using d_pos by (rule sin_x_le_x)
  have "\<bar>sin d - (\<Sum>m<3. sin_coeff m * d ^ m)\<bar> \<le> inverse (fact 3) * \<bar>d\<bar> ^ 3"
    by (rule Maclaurin_sin_bound)
  then have "\<bar>sin d - d\<bar> \<le> d ^ 3 / 6"
    using d_pos by (simp add: sum_lessThan_list upt_rec sin_coeff_def fact_numeral)
  moreover have "d ^ 3 \<le> (4.8987 / 10 ^ 16) ^ 3"
    using d_pos d_hi by (intro power_mono) simp_all
  ultimately have lower: "d - (4.8987 / 10 ^ 16) ^ 3 / 6 \<le> sin d"
    by linarith
  have cube: "(4.8987 / 10 ^ 16 :: real) ^ 3 / 6 \<le> 1 / 10 ^ 20"
    by (simp add: power_divide)
  have "4.8985 / 10 ^ 16 - 1 / 10 ^ 20 < sin d"
    using lower d_lo cube by linarith
  then have sin_lo: "4.898 / 10 ^ 16 < sin d"
    by simp
  have sin_hi: "sin d < 4.899 / 10 ^ 16"
    using upper d_hi by simp
  show "- (4.899 / 10 ^ 16) < sin (Math_PI * 4)"
    using sin_hi unfolding s by simp
  show "sin (Math_PI * 4) < - (4.898 / 10 ^ 16)"
    using sin_lo unfolding s by simp
qed

section \<open>Curve path generator: endpoints\<close>

text \<open>
  Every branch of the generator begins its path with a move to the start anchor, and every
  branch but \<^verbatim>\<open>wave\<close> writes the end anchor into its last command.
\<close>

lemma path_endpoints_except_wave:
  "firstPoint (pathString (createCurvePath coords curveType curveDirection curveIntensity))
     = Some \<lparr>pt_x = startX coords, pt_y = startY coords\<rparr>"
  "curveType \<noteq> ''wave'' \<Longrightarrow>
   lastPoint (pathString (createCurvePath coords curveType curveDirection curveIntensity))
     = Some \<lparr>pt_x = endX coords, pt_y = endY coords\<rparr>"
proof -
  let ?sx = "startX coords" and ?sy = "startY coords"
  let ?ex = "endX coords" and ?ey = "endY coords"
  obtain p cx cy where
    r: "route ?ex ?ey ([MoveTo ?sx ?sy], ?sx, ?sy) (obstacleRects coords) = (p, cx, cy)"
    by (cases "route ?ex ?ey ([MoveTo ?sx ?sy], ?sx, ?sy) (obstacleRects coords)") auto
  from route_path [of ?ex ?ey "[MoveTo ?sx ?sy]" ?sx ?sy "obstacleRects coords"] r
  obtain ws where p: "p = MoveTo ?sx ?sy # ws"
    by auto
  have last_route: "lastPoint (p @ [LineTo ?ex ?ey]) = Some \<lparr>pt_x = ?ex, pt_y = ?ey\<rparr>"
    by (simp add: lastPoint_snoc)
  have last_zigzag:
    "lastPoint ((MoveTo ?sx ?sy # map (zigzagSegment ?sx ?sy dx dy b) [1..<7]) @ [LineTo ?ex ?ey])
       = Some \<lparr>pt_x = ?ex, pt_y = ?ey\<rparr>" for dx dy b
    by (simp only: lastPoint_snoc segment_end.simps)
  show "firstPoint (pathString (createCurvePath coords curveType curveDirection curveIntensity))
     = Some \<lparr>pt_x = ?sx, pt_y = ?sy\<rparr>"
    using r p by (simp add: createCurvePath_def Let_def del: upt_Suc)
  show "lastPoint (pathString (createCurvePath coords curveType curveDirection curveIntensity))
     = Some \<lparr>pt_x = ?ex, pt_y = ?ey\<rparr>" if "curveType \<noteq> ''wave''"
    using that r p last_route last_zigzag
    by (simp add: createCurvePath_def Let_def del: upt_Suc)
qed

text \<open>
  Claim C1 does not hold of the \<^verbatim>\<open>wave\<close> style. For start \<open>(0, 0)\<close>, end \<open>(100, 0)\<close>,
  intensity \<open>0.4\<close> and direction \<^verbatim>\<open>auto\<close>, the path begins at the start anchor, but its
  last command ends at the eighth sample \<open>(100, sin (4 * Math_PI) * 40 * 0.3)\<close>, whose
  ordinate lies between \<open>-5.879 / 10\<^sup>1\<^sup>5\<close> and \<open>-5.877 / 10\<^sup>1\<^sup>5\<close> (the source prints
  \<^verbatim>\<open>-5.878304635907296e-15\<close>): the last point is not the end anchor.
\<close>

theorem wave_misses_end:
  "firstPoint (pathString (createCurvePath
      \<lparr>startX = 0, startY = 0, endX = 100, endY = 0, obstacleRects = []\<rparr> ''wave'' ''auto'' 0.4))
     = Some \<lparr>pt_x = 0, pt_y = 0\<rparr>
   \<and> lastPoint (pathString (createCurvePath
      \<lparr>startX = 0, startY = 0, endX = 100, endY = 0, obstacleRects = []\<rparr> ''wave'' ''auto'' 0.4))
     = Some \<lparr>pt_x = 100, pt_y = sin (Math_PI * 4) * 12\<rparr>
   \<and> - (5.879 / 10 ^ 15) < sin (Math_PI * 4) * 12
   \<and> sin (Math_PI * 4) * 12 < - (5.877 / 10 ^ 15)
   \<and> lastPoint (pathString (createCurvePath
      \<lparr>startX = 0, startY = 0, endX = 100, endY = 0, obstacleRects = []\<rparr> ''wave'' ''auto'' 0.4))
     \<noteq> Some \<lparr>pt_x = 100, pt_y = 0\<rparr>"
proof -
  let ?c = "\<lparr>startX = 0, startY = 0, endX = 100, endY = 0, obstacleRects = []\<rparr>"
  have first: "firstPoint (pathString (createCurvePath ?c ''wave'' ''auto'' 0.4))
      = Some \<lparr>pt_x = 0, pt_y = 0\<rparr>"
    by (simp add: createCurvePath_def Let_def del: upt_Suc)
  have b: "baseOffset (hypot (100 - 0) (0 - 0)) 0.4 = 40"
    by (simp add: baseOffset_def hypot_def)
  have sample: "segment_end (waveSegment 0 0 100 0 40 8)
      = Some \<lparr>pt_x = 100, pt_y = sin (Math_PI * 4) * 12\<rparr>"
    by (simp add: waveSegment_def Let_def mult.commute)
  have loop: "lastPoint (MoveTo 0 0 # map (waveSegment 0 0 100 0 40) [1..<9])
      = Some \<lparr>pt_x = 100, pt_y = sin (Math_PI * 4) * 12\<rparr>"
    by (simp only: lastPoint_wave sample)
  have last: "lastPoint (pathString (createCurvePath ?c ''wave'' ''auto'' 0.4))
      = Some \<lparr>pt_x = 100, pt_y = sin (Math_PI * 4) * 12\<rparr>"
    using b loop by (simp add: createCurvePath_def Let_def del: upt_Suc)
  have lo: "- (5.879 / 10 ^ 15) < sin (Math_PI * 4) * 12"
    using sin_4_Math_PI(1) by simp
  have hi: "sin (Math_PI * 4) * 12 < - (5.877 / 10 ^ 15)"
    using sin_4_Math_PI(2) by simp
  from hi have "sin (Math_PI * 4) * 12 \<noteq> 0"
    by simp
  with last have ne: "lastPoint (pathString (createCurvePath ?c ''wave'' ''auto'' 0.4))
      \<noteq> Some \<lparr>pt_x = 100, pt_y = 0\<rparr>"
    by simp
  from first last lo hi ne show ?thesis
    by (intro conjI)
qed

section \<open>Curve path generator: the smooth style\<close>

text \<open>
  Claim C2 (scenario A). For start \<open>(0, 0)\<close>, end \<open>(100, 0)\<close>, curve type \<^verbatim>\<open>smooth\<close>,
  intensity \<open>0.4\<close> and direction \<^verbatim>\<open>auto\<close>: the direction resolves to \<^verbatim>\<open>down\<close>
  (\<open>|dx| > |dy|\<close> and \<open>dy = 0\<close> is not positive), the offset is
  \<open>min (100 * 0.4) 150 = 40\<close>, it is applied on the y axis only, and the path is the single
  cubic with control points \<open>(30, 20)\<close> and \<open>(70, 20)\<close>, whatever the obstacle list.
\<close>

theorem scenario_A_smooth:
  "effectiveDirection ''auto'' (100 - 0) (0 - 0) = ''down''
   \<and> baseOffset (hypot (100 - 0) (0 - 0)) 0.4 = min (100 * 0.4) 150
   \<and> baseOffset (hypot (100 - 0) (0 - 0)) 0.4 = 40
   \<and> offsetX ''down'' 40 = 0
   \<and> offsetY ''down'' 40 = 40
   \<and> createCurvePath \<lparr>startX = 0, startY = 0, endX = 100, endY = 0, obstacleRects = obs\<rparr>
        ''smooth'' ''auto'' 0.4
      = \<lparr>pathString = [MoveTo 0 0, CubicTo 30 20 70 20 100 0], control2X = 70, control2Y = 20\<rparr>"
  by (simp add: createCurvePath_def effectiveDirection_def baseOffset_def offsetX_def offsetY_def
      hypot_def Let_def)

text \<open>
  Claim C7. A curve type outside the eight implemented styles (the reserved \<^verbatim>\<open>spiral\<close>,
  \<^verbatim>\<open>loop\<close>, \<^verbatim>\<open>heart\<close>, \<^verbatim>\<open>infinity\<close>, or any other string) yields, for every
  coordinate state, direction and intensity, the same path and the same control anchor as
  \<^verbatim>\<open>smooth\<close>.
\<close>

theorem unrecognized_is_smooth:
  assumes "curveType \<notin> set implementedStyles"
  shows "createCurvePath coords curveType curveDirection curveIntensity
       = createCurvePath coords ''smooth'' curveDirection curveIntensity"
  using assms by (simp add: createCurvePath_def implementedStyles_def Let_def)

theorem unrecognized_is_smooth_witness:
  "''spiral'' \<notin> set implementedStyles
   \<and> createCurvePath \<lparr>startX = 0, startY = 0, endX = 100, endY = 0, obstacleRects = []\<rparr>
        ''spiral'' ''auto'' 0.4
     = createCurvePath \<lparr>startX = 0, startY = 0, endX = 100, endY = 0, obstacleRects = []\<rparr>
        ''smooth'' ''auto'' 0.4"
proof -
  have h: "''spiral'' \<notin> set implementedStyles"
    by (simp add: implementedStyles_def)
  show ?thesis
    using h unrecognized_is_smooth [OF h] by simp
qed

section \<open>Curve path generator: intensity\<close>

text \<open>
  Claim C8 as stated fails: the generator does not clamp the intensity. At distance 100 and
  intensity \<open>0.05\<close> the offset is 5, where clamping to \<open>[0.1, 2.0]\<close> would give 10, and the
  \<^verbatim>\<open>smooth\<close> path differs from the one of the clamped intensity.
\<close>

theorem intensity_not_clamped_counterexample:
  "baseOffset (hypot (100 - 0) (0 - 0)) 0.05
      \<noteq> min (hypot (100 - 0) (0 - 0) * spec_clamp 0.05 0.1 2.0) 150
   \<and> baseOffset (hypot (100 - 0) (0 - 0)) 0.05 = 5
   \<and> min (hypot (100 - 0) (0 - 0) * spec_clamp 0.05 0.1 2.0) 150 = 10
   \<and> createCurvePath \<lparr>startX = 0, startY = 0, endX = 100, endY = 0, obstacleRects = []\<rparr>
        ''smooth'' ''auto'' 0.05
      = \<lparr>pathString = [MoveTo 0 0, CubicTo 30 2.5 70 2.5 100 0], control2X = 70, control2Y = 2.5\<rparr>
   \<and> createCurvePath \<lparr>startX = 0, startY = 0, endX = 100, endY = 0, obstacleRects = []\<rparr>
        ''smooth'' ''auto'' 0.05
      \<noteq> createCurvePath \<lparr>startX = 0, startY = 0, endX = 100, endY = 0, obstacleRects = []\<rparr>
        ''smooth'' ''auto'' (spec_clamp 0.05 0.1 2.0)"
  by (simp add: createCurvePath_def effectiveDirection_def baseOffset_def offsetX_def offsetY_def
      hypot_def Let_def spec_clamp_def)

text \<open>
  Claim C8, amended. The generator uses the intensity as it is given: the bow offset is
  \<open>min (distance * curveIntensity) 150\<close> for every input, which shows in the path (for
  \<^verbatim>\<open>smooth\<close> bent \<^verbatim>\<open>down\<close>, the control anchor is displaced by half of it). When the
  intensity already lies in \<open>[0.1, 2.0]\<close>, this is the offset of the clamped intensity.
\<close>

theorem bow_offset_unclamped:
  "baseOffset distance curveIntensity = min (distance * curveIntensity) 150
   \<and> control2Y (createCurvePath coords ''smooth'' ''down'' curveIntensity)
      = endY coords - (endY coords - startY coords) * 0.3
        + min (hypot (endX coords - startX coords) (endY coords - startY coords) * curveIntensity) 150
          * 0.5
   \<and> (0.1 \<le> curveIntensity \<and> curveIntensity \<le> 2.0 \<longrightarrow>
        baseOffset distance curveIntensity = min (distance * spec_clamp curveIntensity 0.1 2.0) 150)"
  by (simp add: createCurvePath_def effectiveDirection_def baseOffset_def offsetX_def offsetY_def
      Let_def spec_clamp_def)

theorem bow_offset_unclamped_witness:
  "(0.1 :: real) \<le> 0.4 \<and> (0.4 :: real) \<le> 2.0
   \<and> baseOffset 100 0.4 = min (100 * spec_clamp 0.4 0.1 2.0) 150
   \<and> baseOffset 100 0.4 = 40"
  using bow_offset_unclamped
    [of 100 "0.4" "\<lparr>startX = 0, startY = 0, endX = 100, endY = 0, obstacleRects = []\<rparr>"]
  by (simp add: spec_clamp_def)

section \<open>Obstacle router\<close>

lemma route_append: "route ex ey st (obs1 @ obs2) = route ex ey (route ex ey st obs1) obs2"
  by (induction obs1 arbitrary: st) simp_all

text \<open>
  Claim C3 as stated fails at its own example. For the obstacle
  \<^verbatim>\<open>{x:40, y:40, width:20, height:20}\<close> the expanded box reaches down to
  \<open>40 + 20 + 25 = 85\<close>, not 65, and the path from \<open>(0, 50)\<close> to \<open>(100, 50)\<close> does not pass
  through \<open>(105, 75)\<close>. The test is also not an overlap of x-ranges when the running point is
  to the right of the end anchor: from \<open>(200, 50)\<close> to \<open>(0, 50)\<close> both ranges overlap the
  box, and no waypoint is inserted.
\<close>

theorem scenario_C_counterexample:
  "boxBottom \<lparr>r_x = 40, r_y = 40, r_width = 20, r_height = 20\<rparr> \<noteq> 65
   \<and> pathString (createCurvePath
        \<lparr>startX = 0, startY = 50, endX = 100, endY = 50,
         obstacleRects = [\<lparr>r_x = 40, r_y = 40, r_width = 20, r_height = 20\<rparr>]\<rparr>
        ''around-obstacle'' ''auto'' 0.4)
      \<noteq> [MoveTo 0 50, LineTo 105 75, LineTo 100 50]
   \<and> spec_rangesOverlap 200 0 (boxLeft \<lparr>r_x = 40, r_y = 40, r_width = 20, r_height = 20\<rparr>)
        (boxRight \<lparr>r_x = 40, r_y = 40, r_width = 20, r_height = 20\<rparr>)
   \<and> spec_rangesOverlap 50 50 (boxTop \<lparr>r_x = 40, r_y = 40, r_width = 20, r_height = 20\<rparr>)
        (boxBottom \<lparr>r_x = 40, r_y = 40, r_width = 20, r_height = 20\<rparr>)
   \<and> pathString (createCurvePath
        \<lparr>startX = 200, startY = 50, endX = 0, endY = 50,
         obstacleRects = [\<lparr>r_x = 40, r_y = 40, r_width = 20, r_height = 20\<rparr>]\<rparr>
        ''around-obstacle'' ''auto'' 0.4)
      = [MoveTo 200 50, LineTo 0 50]"
  by (simp add: createCurvePath_def Let_def detour_def intersects_def wayX_def wayY_def
      boxLeft_def boxRight_def boxTop_def boxBottom_def margin_def spec_rangesOverlap_def)

text \<open>
  Claim C3, amended. The router takes the obstacles in input order: after any obstacles
  \<open>obs1\<close>, the next obstacle \<open>ob\<close> is handled from the state they left, and the rest follow.
  The rect is grown by 25 on every side. When the running point is not to the right of the
  end anchor (\<open>cx \<le> ex\<close>), exactly one waypoint is appended if and only if the x-ranges and
  the y-ranges of the segment and of the grown box overlap, and the running point moves to
  it; otherwise nothing changes. The waypoint lies 20 beyond the grown box horizontally (to
  the right when the end anchor is right of the obstacle's centre, else to the left) and 10
  beyond it vertically (above when the end anchor is above the centre, else below). For
  the obstacle \<^verbatim>\<open>{x:40, y:40, width:20, height:20}\<close>, start \<open>(0, 50)\<close> and end
  \<open>(100, 50)\<close>, the grown box is \<open>x \<in> [15, 85]\<close>, \<open>y \<in> [15, 85]\<close>, the segment intersects
  it, and the one waypoint is \<open>(105, 95)\<close>.
\<close>

theorem obstacle_router:
  assumes "cx \<le> ex"
  shows
  "detour ex ey (p, cx, cy) ob =
      (if spec_rangesOverlap cx ex (boxLeft ob) (boxRight ob)
          \<and> spec_rangesOverlap cy ey (boxTop ob) (boxBottom ob)
       then (p @ [LineTo (wayX ex ob) (wayY ey ob)], wayX ex ob, wayY ey ob)
       else (p, cx, cy))
   \<and> boxLeft ob = r_x ob - 25 \<and> boxRight ob = r_x ob + r_width ob + 25
   \<and> boxTop ob = r_y ob - 25 \<and> boxBottom ob = r_y ob + r_height ob + 25
   \<and> wayX ex ob = (if ex > r_x ob + r_width ob / 2 then boxRight ob + 20 else boxLeft ob - 20)
   \<and> wayY ey ob = (if ey < r_y ob + r_height ob / 2 then boxTop ob - 10 else boxBottom ob + 10)
   \<and> route ex ey st (obs1 @ ob # obs2) = route ex ey (detour ex ey (route ex ey st obs1) ob) obs2
   \<and> boxLeft \<lparr>r_x = 40, r_y = 40, r_width = 20, r_height = 20\<rparr> = 15
   \<and> boxRight \<lparr>r_x = 40, r_y = 40, r_width = 20, r_height = 20\<rparr> = 85
   \<and> boxTop \<lparr>r_x = 40, r_y = 40, r_width = 20, r_height = 20\<rparr> = 15
   \<and> boxBottom \<lparr>r_x = 40, r_y = 40, r_width = 20, r_height = 20\<rparr> = 85
   \<and> intersects 0 50 100 50 \<lparr>r_x = 40, r_y = 40, r_width = 20, r_height = 20\<rparr>
   \<and> createCurvePath
        \<lparr>startX = 0, startY = 50, endX = 100, endY = 50,
         obstacleRects = [\<lparr>r_x = 40, r_y = 40, r_width = 20, r_height = 20\<rparr>]\<rparr>
        ''around-obstacle'' curveDirection curveIntensity
      = \<lparr>pathString = [MoveTo 0 50, LineTo 105 95, LineTo 100 50],
         control2X = 105, control2Y = 95\<rparr>"
proof -
  have step: "intersects cx cy ex ey ob \<longleftrightarrow>
      spec_rangesOverlap cx ex (boxLeft ob) (boxRight ob)
      \<and> spec_rangesOverlap cy ey (boxTop ob) (boxBottom ob)"
    using assms by (auto simp: intersects_def spec_rangesOverlap_def)
  have d: "detour ex ey (p, cx, cy) ob =
      (if spec_rangesOverlap cx ex (boxLeft ob) (boxRight ob)
          \<and> spec_rangesOverlap cy ey (boxTop ob) (boxBottom ob)
       then (p @ [LineTo (wayX ex ob) (wayY ey ob)], wayX ex ob, wayY ey ob)
       else (p, cx, cy))"
    by (simp only: detour_def step prod.case)
  have boxes: "boxLeft ob = r_x ob - 25" "boxRight ob = r_x ob + r_width ob + 25"
    "boxTop ob = r_y ob - 25" "boxBottom ob = r_y ob + r_height ob + 25"
    by (simp_all add: boxLeft_def boxRight_def boxTop_def boxBottom_def margin_def)
  have way:
    "wayX ex ob = (if ex > r_x ob + r_width ob / 2 then boxRight ob + 20 else boxLeft ob - 20)"
    "wayY ey ob = (if ey < r_y ob + r_height ob / 2 then boxTop ob - 10 else boxBottom ob + 10)"
    by (simp_all add: wayX_def wayY_def)
  have order:
    "route ex ey st (obs1 @ ob # obs2) = route ex ey (detour ex ey (route ex ey st obs1) ob) obs2"
    by (simp add: route_append)
  have scen: "boxLeft \<lparr>r_x = 40, r_y = 40, r_width = 20, r_height = 20\<rparr> = 15"
    "boxRight \<lparr>r_x = 40, r_y = 40, r_width = 20, r_height = 20\<rparr> = 85"
    "boxTop \<lparr>r_x = 40, r_y = 40, r_width = 20, r_height = 20\<rparr> = 15"
    "boxBottom \<lparr>r_x = 40, r_y = 40, r_width = 20, r_height = 20\<rparr> = 85"
    "intersects 0 50 100 50 \<lparr>r_x = 40, r_y = 40, r_width = 20, r_height = 20\<rparr>"
    by (simp_all add: intersects_def boxLeft_def boxRight_def boxTop_def boxBottom_def margin_def)
  have path: "createCurvePath
        \<lparr>startX = 0, startY = 50, endX = 100, endY = 50,
         obstacleRects = [\<lparr>r_x = 40, r_y = 40, r_width = 20, r_height = 20\<rparr>]\<rparr>
        ''around-obstacle'' curveDirection curveIntensity
      = \<lparr>pathString = [MoveTo 0 50, LineTo 105 95, LineTo 100 50],
         control2X = 105, control2Y = 95\<rparr>"
    by (simp add: createCurvePath_def Let_def detour_def scen wayX_def wayY_def)
  from d boxes way order scen path show ?thesis
    by (intro conjI)
qed

theorem obstacle_router_witness:
  "(0 :: real) \<le> 100
   \<and> detour 100 50 ([MoveTo 0 50], 0, 50) \<lparr>r_x = 40, r_y = 40, r_width = 20, r_height = 20\<rparr>
      = ([MoveTo 0 50, LineTo 105 95], 105, 95)"
proof -
  have h: "(0 :: real) \<le> 100"
    by simp
  show ?thesis
    using h obstacle_router
      [OF h, of 50 "[MoveTo 0 50]" 50 "\<lparr>r_x = 40, r_y = 40, r_width = 20, r_height = 20\<rparr>"]
    by (simp add: spec_rangesOverlap_def)
qed

text \<open>
  Claim C6. With no obstacles, \<^verbatim>\<open>around-obstacle\<close> and \<^verbatim>\<open>shortest-path\<close> produce, for
  every pair of anchors, every direction and every intensity, the cubic whose control points
  are start \<open>+ 0.3 * delta\<close> and end \<open>- 0.3 * delta\<close>, with no offset term; the control
  anchor is the second of them.
\<close>

theorem obstacle_free_fallback:
  "createCurvePath \<lparr>startX = sx, startY = sy, endX = ex, endY = ey, obstacleRects = []\<rparr>
      ''around-obstacle'' curveDirection curveIntensity
    = \<lparr>pathString = [MoveTo sx sy,
          CubicTo (sx + (ex - sx) * 0.3) (sy + (ey - sy) * 0.3)
                  (ex - (ex - sx) * 0.3) (ey - (ey - sy) * 0.3) ex ey],
       control2X = ex - (ex - sx) * 0.3, control2Y = ey - (ey - sy) * 0.3\<rparr>
   \<and> createCurvePath \<lparr>startX = sx, startY = sy, endX = ex, endY = ey, obstacleRects = []\<rparr>
      ''shortest-path'' curveDirection curveIntensity
    = \<lparr>pathString = [MoveTo sx sy,
          CubicTo (sx + (ex - sx) * 0.3) (sy + (ey - sy) * 0.3)
                  (ex - (ex - sx) * 0.3) (ey - (ey - sy) * 0.3) ex ey],
       control2X = ex - (ex - sx) * 0.3, control2Y = ey - (ey - sy) * 0.3\<rparr>"
  by (simp add: createCurvePath_def Let_def)

section \<open>Anchor resolver: the dock table\<close>

text \<open>
  Claim C4. For every element rect and container rect, with \<open>relX\<close>, \<open>relY\<close> the element's
  corner relative to the container and \<open>w\<close>, \<open>h\<close> its size: the edge docks \<^verbatim>\<open>top\<close>,
  \<^verbatim>\<open>bottom\<close>, \<^verbatim>\<open>left\<close>, \<^verbatim>\<open>right\<close> and their \<^verbatim>\<open>-center\<close> forms sit at the middle
  of the edge, moved 5 outward along its normal; the four corner docks sit on the corner
  itself; \<^verbatim>\<open>center\<close> is the centroid. In particular (scenario B) \<^verbatim>\<open>top\<close> on the rect
  \<^verbatim>\<open>{x:10, y:10, width:20, height:10}\<close> resolves to \<open>(20, 5)\<close>.
\<close>

theorem dock_table:
  "(let relX = dr_left rect - dr_left c; relY = dr_top rect - dr_top c;
        w = dr_width rect; h = dr_height rect
    in calculatePosition rect (Some c) ''top'' = \<lparr>pt_x = relX + w / 2, pt_y = relY - 5\<rparr>
     \<and> calculatePosition rect (Some c) ''top-center'' = \<lparr>pt_x = relX + w / 2, pt_y = relY - 5\<rparr>
     \<and> calculatePosition rect (Some c) ''bottom'' = \<lparr>pt_x = relX + w / 2, pt_y = relY + h + 5\<rparr>
     \<and> calculatePosition rect (Some c) ''bottom-center''
          = \<lparr>pt_x = relX + w / 2, pt_y = relY + h + 5\<rparr>
     \<and> calculatePosition rect (Some c) ''left'' = \<lparr>pt_x = relX - 5, pt_y = relY + h / 2\<rparr>
     \<and> calculatePosition rect (Some c) ''left-center'' = \<lparr>pt_x = relX - 5, pt_y = relY + h / 2\<rparr>
     \<and> calculatePosition rect (Some c) ''right'' = \<lparr>pt_x = relX + w + 5, pt_y = relY + h / 2\<rparr>
     \<and> calculatePosition rect (Some c) ''right-center''
          = \<lparr>pt_x = relX + w + 5, pt_y = relY + h / 2\<rparr>
     \<and> calculatePosition rect (Some c) ''center'' = \<lparr>pt_x = relX + w / 2, pt_y = relY + h / 2\<rparr>
     \<and> calculatePosition rect (Some c) ''top-left'' = \<lparr>pt_x = relX, pt_y = relY\<rparr>
     \<and> calculatePosition rect (Some c) ''top-right'' = \<lparr>pt_x = relX + w, pt_y = relY\<rparr>
     \<and> calculatePosition rect (Some c) ''bottom-left'' = \<lparr>pt_x = relX, pt_y = relY + h\<rparr>
     \<and> calculatePosition rect (Some c) ''bottom-right'' = \<lparr>pt_x = relX + w, pt_y = relY + h\<rparr>)
   \<and> calculatePosition
        \<lparr>dr_left = dr_left c + 10, dr_top = dr_top c + 10, dr_width = 20, dr_height = 10\<rparr>
        (Some c) ''top''
      = \<lparr>pt_x = 20, pt_y = 5\<rparr>"
  by (simp add: calculatePosition_def Let_def)

text \<open>
  Claim C10. For every element rect and container rect, the docks \<^verbatim>\<open>middle-left\<close>,
  \<^verbatim>\<open>center-left\<close>, \<^verbatim>\<open>middle-right\<close>, \<^verbatim>\<open>center-right\<close>, \<^verbatim>\<open>middle-top\<close>,
  \<^verbatim>\<open>center-top\<close>, \<^verbatim>\<open>middle-bottom\<close> and \<^verbatim>\<open>center-bottom\<close> resolve to the exact
  midpoint of the edge, with no padding, and so never to the anchor of the padded docks
  \<^verbatim>\<open>left\<close>, \<^verbatim>\<open>right\<close>, \<^verbatim>\<open>top\<close>, \<^verbatim>\<open>bottom\<close> or of their \<^verbatim>\<open>-center\<close> forms.
\<close>

theorem alias_docks_unpadded:
  "(let relX = dr_left rect - dr_left c; relY = dr_top rect - dr_top c;
        w = dr_width rect; h = dr_height rect
    in calculatePosition rect (Some c) ''middle-left'' = \<lparr>pt_x = relX, pt_y = relY + h / 2\<rparr>
     \<and> calculatePosition rect (Some c) ''center-left'' = \<lparr>pt_x = relX, pt_y = relY + h / 2\<rparr>
     \<and> calculatePosition rect (Some c) ''middle-right'' = \<lparr>pt_x = relX + w, pt_y = relY + h / 2\<rparr>
     \<and> calculatePosition rect (Some c) ''center-right'' = \<lparr>pt_x = relX + w, pt_y = relY + h / 2\<rparr>
     \<and> calculatePosition rect (Some c) ''middle-top'' = \<lparr>pt_x = relX + w / 2, pt_y = relY\<rparr>
     \<and> calculatePosition rect (Some c) ''center-top'' = \<lparr>pt_x = relX + w / 2, pt_y = relY\<rparr>
     \<and> calculatePosition rect (Some c) ''middle-bottom'' = \<lparr>pt_x = relX + w / 2, pt_y = relY + h\<rparr>
     \<and> calculatePosition rect (Some c) ''center-bottom'' = \<lparr>pt_x = relX + w / 2, pt_y = relY + h\<rparr>)
   \<and> calculatePosition rect (Some c) ''middle-left'' \<noteq> calculatePosition rect (Some c) ''left''
   \<and> calculatePosition rect (Some c) ''middle-left''
        \<noteq> calculatePosition rect (Some c) ''left-center''
   \<and> calculatePosition rect (Some c) ''middle-right'' \<noteq> calculatePosition rect (Some c) ''right''
   \<and> calculatePosition rect (Some c) ''middle-right''
        \<noteq> calculatePosition rect (Some c) ''right-center''
   \<and> calculatePosition rect (Some c) ''middle-top'' \<noteq> calculatePosition rect (Some c) ''top''
   \<and> calculatePosition rect (Some c) ''middle-top''
        \<noteq> calculatePosition rect (Some c) ''top-center''
   \<and> calculatePosition rect (Some c) ''middle-bottom'' \<noteq> calculatePosition rect (Some c) ''bottom''
   \<and> calculatePosition rect (Some c) ''middle-bottom''
        \<noteq> calculatePosition rect (Some c) ''bottom-center''"
  by (simp add: calculatePosition_def Let_def)

section \<open>Tolerance suppression\<close>

text \<open>
  Claim C5. For every committed state \<open>prev\<close> and every newly computed anchors \<open>sp\<close>, \<open>ep\<close>
  and obstacle rects \<open>newRects\<close>: when each of the four coordinates differs from the
  committed one by less than 0.5 and the number of obstacle rects is the same, the updater
  returns \<open>prev\<close> itself, so nothing new is committed. The fallback to coordinate props,
  whose new state has no obstacle rects, behaves the same.
\<close>

theorem tolerance_suppression:
  assumes "\<bar>startX prev - pt_x sp\<bar> < 0.5" and "\<bar>startY prev - pt_y sp\<bar> < 0.5"
    and "\<bar>endX prev - pt_x ep\<bar> < 0.5" and "\<bar>endY prev - pt_y ep\<bar> < 0.5"
    and "length (obstacleRects prev) = length newRects"
  shows "commitFromRefs sp ep newRects prev = prev
       \<and> (newRects = [] \<longrightarrow> commitDirect (pt_x sp) (pt_y sp) (pt_x ep) (pt_y ep) prev = prev)"
  using assms by (simp add: commitFromRefs_def commitDirect_def)

theorem tolerance_suppression_witness:
  "\<bar>startX \<lparr>startX = 10, startY = 20, endX = 110, endY = 120, obstacleRects = []\<rparr>
      - pt_x \<lparr>pt_x = 10.25, pt_y = 19.75\<rparr>\<bar> < 0.5
   \<and> length (obstacleRects \<lparr>startX = 10, startY = 20, endX = 110, endY = 120, obstacleRects = []\<rparr>)
      = length ([] :: RectLite list)
   \<and> commitFromRefs \<lparr>pt_x = 10.25, pt_y = 19.75\<rparr> \<lparr>pt_x = 110.25, pt_y = 120.25\<rparr> []
        \<lparr>startX = 10, startY = 20, endX = 110, endY = 120, obstacleRects = []\<rparr>
      = \<lparr>startX = 10, startY = 20, endX = 110, endY = 120, obstacleRects = []\<rparr>
   \<and> commitDirect 10.25 19.75 110.25 120.25
        \<lparr>startX = 10, startY = 20, endX = 110, endY = 120, obstacleRects = []\<rparr>
      = \<lparr>startX = 10, startY = 20, endX = 110, endY = 120, obstacleRects = []\<rparr>"
  using tolerance_suppression
    [of "\<lparr>startX = 10, startY = 20, endX = 110, endY = 120, obstacleRects = []\<rparr>"
        "\<lparr>pt_x = 10.25, pt_y = 19.75\<rparr>" "\<lparr>pt_x = 110.25, pt_y = 120.25\<rparr>" "[]"]
  by simp

section \<open>Arrowhead generator: the filled triangle\<close>

text \<open>
  Claim C9 (scenario D). For the shape \<^verbatim>\<open>filled-triangle\<close> of size 20, tangent angle 0
  and rotation 0 at the tip \<open>(50, 50)\<close>, the glyph is the closed path
  \<^verbatim>\<open>M 50 50 L x1 y1 L x2 y2 Z\<close> with \<open>x1 = x2 = 50 - 20 * cos (\<pi>/6)\<close>, \<open>y1 = 60\<close> and
  \<open>y2 = 40\<close>, whether or not the head is force-filled; both wing points are at distance 20
  from the tip.
\<close>

theorem filled_triangle_head:
  "createArrowHead 50 50 0 20 ''filled-triangle'' 0 forceFilled
     = [MoveTo 50 50, LineTo (50 - 20 * cos (pi / 6)) 60, LineTo (50 - 20 * cos (pi / 6)) 40,
        ClosePath]
   \<and> (50 - 20 * cos (pi / 6) - 50)\<^sup>2 + (60 - 50 :: real)\<^sup>2 = 20\<^sup>2
   \<and> (50 - 20 * cos (pi / 6) - 50)\<^sup>2 + (40 - 50 :: real)\<^sup>2 = 20\<^sup>2"
  by (simp add: createArrowHead_def closedTriangle_def Let_def sin_30 cos_30 power2_eq_square)

end
